theory Spec2Isabelle
  imports Main
begin

section \<open>Python values\<close>

text \<open>
  The scrapers work on values decoded from JSON (\<open>json.loads\<close>, \<open>response.json()\<close>) or
  handed back by the browser driver (\<open>execute_script\<close>): \<open>None\<close>, booleans, numbers,
  strings, lists and dictionaries with string keys. A dictionary keeps its insertion
  order (\<open>item.items()\<close> is iterated in \<open>format_price_data\<close>), so it is an association
  list; the keys of a dictionary are distinct, and the properties below hold for every
  association list, with or without a repeated key. A \<open>str\<close> is the list of its code
  points; Isabelle's \<open>char\<close> has eight bits, so the model covers the code points below
  256. A float is a mantissa and a binary exponent; only its truth value is ever
  inspected.
\<close>

datatype py_error =
    TypeError | IndexError | KeyError | AttributeError
  | JSONDecodeError | RequestException | WebDriverException | OSError

datatype pyval =
    PNone
  | PBool bool
  | PInt int
  | PFloat int int
  | PStr string
  | PList "pyval list"
  | PDict "(string \<times> pyval) list"

definition py_bind :: "py_error + 'a \<Rightarrow> ('a \<Rightarrow> py_error + 'b) \<Rightarrow> py_error + 'b" where
  "py_bind m f = (case m of Inl e \<Rightarrow> Inl e | Inr x \<Rightarrow> f x)"

text \<open>\<open>a and b\<close> on two tests that may raise: \<open>b\<close> is evaluated only when \<open>a\<close> is true.\<close>

definition py_and :: "py_error + bool \<Rightarrow> py_error + bool \<Rightarrow> py_error + bool" where
  "py_and a b = (case a of Inl e \<Rightarrow> Inl e | Inr x \<Rightarrow> if x then b else Inr False)"

text \<open>\<open>any(...)\<close> over a generator of tests: stops at the first true one.\<close>

fun py_any :: "(py_error + bool) list \<Rightarrow> py_error + bool" where
  "py_any [] = Inr False"
| "py_any (t # ts) =
     (case t of Inl e \<Rightarrow> Inl e | Inr x \<Rightarrow> if x then Inr True else py_any ts)"

text \<open>\<open>bool(v)\<close>, the test behind \<open>not data\<close> and \<open>if data\<close>.\<close>

fun truthy :: "pyval \<Rightarrow> bool" where
  "truthy PNone = False"
| "truthy (PBool b) = b"
| "truthy (PInt i) = (i \<noteq> 0)"
| "truthy (PFloat m e) = (m \<noteq> 0)"
| "truthy (PStr s) = (s \<noteq> [])"
| "truthy (PList xs) = (xs \<noteq> [])"
| "truthy (PDict d) = (d \<noteq> [])"

fun isinstance_dict :: "pyval \<Rightarrow> bool" where
  "isinstance_dict (PDict d) = True"
| "isinstance_dict _ = False"

fun isinstance_list :: "pyval \<Rightarrow> bool" where
  "isinstance_list (PList xs) = True"
| "isinstance_list _ = False"

fun is_substr :: "string \<Rightarrow> string \<Rightarrow> bool" where
  "is_substr k [] = (k = [])"
| "is_substr k (c # s) = (take (length k) (c # s) = k \<or> is_substr k s)"

text \<open>
  \<open>key in container\<close> for a string key: a key of a dictionary, an element of a list, a
  substring of a string; any other right operand raises \<open>TypeError\<close>.
\<close>

fun py_in :: "string \<Rightarrow> pyval \<Rightarrow> py_error + bool" where
  "py_in k (PDict d) = Inr (k \<in> set (map fst d))"
| "py_in k (PList xs) = Inr (PStr k \<in> set xs)"
| "py_in k (PStr s) = Inr (is_substr k s)"
| "py_in k _ = Inl TypeError"

fun py_len :: "pyval \<Rightarrow> py_error + nat" where
  "py_len (PDict d) = Inr (length d)"
| "py_len (PList xs) = Inr (length xs)"
| "py_len (PStr s) = Inr (length s)"
| "py_len _ = Inl TypeError"

text \<open>\<open>v[i]\<close> for an index \<open>i \<ge> 0\<close>: out of range raises \<open>IndexError\<close>; a dictionary
  with string keys has no integer key, so it raises \<open>KeyError\<close>.\<close>

fun py_getitem :: "pyval \<Rightarrow> nat \<Rightarrow> py_error + pyval" where
  "py_getitem (PList xs) i = (if i < length xs then Inr (xs ! i) else Inl IndexError)"
| "py_getitem (PStr s) i = (if i < length s then Inr (PStr [s ! i]) else Inl IndexError)"
| "py_getitem (PDict d) i = Inl KeyError"
| "py_getitem _ i = Inl TypeError"

text \<open>\<open>v['key']\<close>.\<close>

fun py_getitem_key :: "pyval \<Rightarrow> string \<Rightarrow> py_error + pyval" where
  "py_getitem_key (PDict d) k = (case map_of d k of None \<Rightarrow> Inl KeyError | Some v \<Rightarrow> Inr v)"
| "py_getitem_key _ k = Inl TypeError"

text \<open>
  \<open>str.lower()\<close> on the code points below 256: the ASCII capitals and the Latin-1 capitals
  (U+00C0 to U+00DE, the multiplication sign U+00D7 apart) move up by 32. (Of the code
  points above 255, four lower into this range, to \<open>k\<close> and to three letters outside ASCII:
  none of them to a letter of the key words \<open>format_price_data\<close> compares with.)
\<close>

definition py_lower_char :: "char \<Rightarrow> char" where
  "py_lower_char c =
     (let n = (of_char c :: nat)
      in if (65 \<le> n \<and> n \<le> 90) \<or> (192 \<le> n \<and> n \<le> 222 \<and> n \<noteq> 215)
         then char_of (n + 32) else c)"

definition py_lower :: "string \<Rightarrow> string" where
  "py_lower s = map py_lower_char s"

section \<open>scrape\_data.py: validate\_price\_data\<close>

definition price_keys :: "string list" where
  "price_keys = [''price'', ''value'', ''y'', ''amount'']"

definition date_keys :: "string list" where
  "date_keys = [''date'', ''time'', ''x'', ''timestamp'']"

text \<open>Lines 223 to 228: the three key pairs tried on a dictionary; true when one of the
  three \<open>return True\<close> fires, false when the code falls through.\<close>

definition dict_rules :: "pyval \<Rightarrow> py_error + bool" where
  "dict_rules data =
     py_bind (py_and (py_in ''labels'' data) (py_in ''data'' data)) (\<lambda>r1.
       if r1 then Inr True
       else py_bind (py_and (py_in ''dates'' data) (py_in ''prices'' data)) (\<lambda>r2.
         if r2 then Inr True
         else py_and (py_in ''x'' data) (py_in ''y'' data)))"

text \<open>Lines 230 to 239: the test on the first element of a list; false when the code falls
  through to the final \<open>return False\<close>.\<close>

definition list_rule :: "pyval \<Rightarrow> py_error + bool" where
  "list_rule data =
     (if isinstance_list data then
        py_bind (py_len data) (\<lambda>n.
          if n > 0 then
            py_bind (py_getitem data 0) (\<lambda>first_item.
              if isinstance_dict first_item then
                py_bind (py_any (map (\<lambda>key. py_in key first_item) price_keys)) (\<lambda>has_price.
                py_bind (py_any (map (\<lambda>key. py_in key first_item) date_keys)) (\<lambda>has_date.
                  Inr (has_price \<and> has_date)))
              else Inr False)
          else Inr False)
      else Inr False)"

definition validate_price_data :: "pyval \<Rightarrow> py_error + bool" where
  "validate_price_data data =
     (if \<not> truthy data then Inr False
      else py_bind (if isinstance_dict data then dict_rules data else Inr False) (\<lambda>hit.
             if hit then Inr True else list_rule data))"

section \<open>scrape\_data.py: format\_price\_data\<close>

definition series :: "pyval \<Rightarrow> pyval \<Rightarrow> pyval" where
  "series labels vals = PDict [(''labels'', labels), (''data'', vals)]"

text \<open>Lines 258 to 265: the loop over \<open>item.items()\<close>, with \<open>(date_val, price_val)\<close> as its
  state. There is no \<open>break\<close>: a later matching key overwrites an earlier one.\<close>

fun scan_items :: "(string \<times> pyval) list \<Rightarrow> pyval \<times> pyval \<Rightarrow> pyval \<times> pyval" where
  "scan_items [] st = st"
| "scan_items ((key, value) # rest) (date_val, price_val) =
     (if py_lower key \<in> set date_keys then scan_items rest (value, price_val)
      else if py_lower key \<in> set price_keys then scan_items rest (date_val, value)
      else scan_items rest (date_val, price_val))"

text \<open>Lines 255 to 269: the loop over the list, with the two output lists as its state.\<close>

fun format_list :: "pyval list \<Rightarrow> pyval list \<times> pyval list \<Rightarrow> pyval list \<times> pyval list" where
  "format_list [] acc = acc"
| "format_list (item # rest) (labels, vals) =
     (case item of
        PDict d \<Rightarrow>
          (case scan_items d (PNone, PNone) of
             (date_val, price_val) \<Rightarrow>
               if date_val \<noteq> PNone \<and> price_val \<noteq> PNone
               then format_list rest (labels @ [date_val], vals @ [price_val])
               else format_list rest (labels, vals))
      | _ \<Rightarrow> format_list rest (labels, vals))"

definition format_price_data :: "pyval \<Rightarrow> py_error + pyval" where
  "format_price_data data =
     (if isinstance_dict data then
        py_bind (py_and (py_in ''labels'' data) (py_in ''data'' data)) (\<lambda>c1.
          if c1 then Inr data
          else py_bind (py_and (py_in ''dates'' data) (py_in ''prices'' data)) (\<lambda>c2.
            if c2 then
              py_bind (py_getitem_key data ''dates'') (\<lambda>ds.
              py_bind (py_getitem_key data ''prices'') (\<lambda>ps.
                Inr (series ds ps)))
            else Inr (series (PList []) (PList []))))
      else (case data of
              PList items \<Rightarrow>
                (case format_list items ([], []) of
                   (labels, vals) \<Rightarrow> Inr (series (PList labels) (PList vals)))
            | _ \<Rightarrow> Inr (series (PList []) (PList []))))"

section \<open>scrape\_data.py: extract\_from\_page\_source\<close>

text \<open>
  The five regular expressions of lines 183 to 189, in the order the loop tries them:
  \<^verbatim>\<open>chartData\s*[:=]\s*(\{[^}]+\})\<close>, \<^verbatim>\<open>priceData\s*[:=]\s*(\[[^\]]+\])\<close>,
  \<^verbatim>\<open>historyData\s*[:=]\s*(\{[^}]+\})\<close>, \<^verbatim>\<open>labels\s*:\s*\[([^\]]+)\]\<close> and
  \<^verbatim>\<open>data\s*:\s*\[([^\]]+)\]\<close>. What \<open>re.findall\<close> returns for a pattern and a script,
  what \<open>json.loads\<close> returns for a string, and what the HTTP request and the HTML parser
  deliver (the \<open>script.string\<close> of every script tag, \<open>None\<close> included, or an exception)
  are inputs of the model.
\<close>

datatype pattern = ChartDataObject | PriceDataArray | HistoryDataObject | LabelsArray | DataArray

definition patterns :: "pattern list" where
  "patterns = [ChartDataObject, PriceDataArray, HistoryDataObject, LabelsArray, DataArray]"

text \<open>Lines 197 to 200, the body of the inner \<open>try\<close>: the loop over the matches of one
  pattern. An exception leaves the loop, and with it the remaining matches.\<close>

fun try_matches :: "(string \<Rightarrow> py_error + pyval) \<Rightarrow> string list \<Rightarrow> py_error + pyval option" where
  "try_matches loads [] = Inr None"
| "try_matches loads (m # ms) =
     py_bind (loads m) (\<lambda>data.
     py_bind (validate_price_data data) (\<lambda>ok.
       if ok then py_bind (format_price_data data) (\<lambda>r. Inr (Some r))
       else try_matches loads ms))"

text \<open>Lines 191 to 202: the loop over the patterns; \<open>except: continue\<close> goes on with the
  next pattern.\<close>

fun scan_patterns ::
  "(pattern \<Rightarrow> string \<Rightarrow> string list) \<Rightarrow> (string \<Rightarrow> py_error + pyval) \<Rightarrow> string
     \<Rightarrow> pattern list \<Rightarrow> pyval option" where
  "scan_patterns findall loads content [] = None"
| "scan_patterns findall loads content (p # ps) =
     (let matches = findall p content
      in if matches \<noteq> [] then
           (case try_matches loads matches of
              Inl e \<Rightarrow> scan_patterns findall loads content ps
            | Inr (Some r) \<Rightarrow> Some r
            | Inr None \<Rightarrow> scan_patterns findall loads content ps)
         else scan_patterns findall loads content ps)"

text \<open>Lines 178 to 202: the loop over the script tags; \<open>if script.string\<close> skips a tag whose
  string is \<open>None\<close> or empty.\<close>

fun scan_scripts ::
  "(pattern \<Rightarrow> string \<Rightarrow> string list) \<Rightarrow> (string \<Rightarrow> py_error + pyval)
     \<Rightarrow> string option list \<Rightarrow> pyval option" where
  "scan_scripts findall loads [] = None"
| "scan_scripts findall loads (s # ss) =
     (case s of
        None \<Rightarrow> scan_scripts findall loads ss
      | Some content \<Rightarrow>
          if content \<noteq> [] then
            (case scan_patterns findall loads content patterns of
               Some r \<Rightarrow> Some r
             | None \<Rightarrow> scan_scripts findall loads ss)
          else scan_scripts findall loads ss)"

text \<open>The whole function: the outer \<open>try\<close> turns a failed request into \<open>None\<close>; the loop
  over the meta tags (lines 205 to 209) only logs.\<close>

definition extract_from_page_source ::
  "(py_error + string option list) \<Rightarrow> (pattern \<Rightarrow> string \<Rightarrow> string list)
     \<Rightarrow> (string \<Rightarrow> py_error + pyval) \<Rightarrow> py_error + pyval" where
  "extract_from_page_source fetched findall loads =
     (case fetched of
        Inl e \<Rightarrow> Inr PNone
      | Inr scripts \<Rightarrow>
          (case scan_scripts findall loads scripts of
             Some r \<Rightarrow> Inr r
           | None \<Rightarrow> Inr PNone))"

section \<open>scrape\_data.py: generate\_sample\_data\<close>

text \<open>
  A \<open>datetime\<close> at midnight is its proleptic Gregorian ordinal (\<open>date.toordinal()\<close>), so
  that adding \<open>timedelta(days=7)\<close> adds 7 and \<open>(a - b).days\<close> is a difference. The
  conversions are those of the standard library's \<open>datetime\<close> module (\<open>_ymd2ord\<close>,
  \<open>_ord2ymd\<close>); \<open>strftime('%Y-%m-%d')\<close> is written for the years 1000 to 9999.
\<close>

definition is_leap :: "int \<Rightarrow> bool" where
  "is_leap year = (year mod 4 = 0 \<and> (year mod 100 \<noteq> 0 \<or> year mod 400 = 0))"

definition DAYS_IN_MONTH :: "int list" where
  "DAYS_IN_MONTH = [-1, 31, 28, 31, 30, 31, 30, 31, 31, 30, 31, 30, 31]"

definition DAYS_BEFORE_MONTH :: "int list" where
  "DAYS_BEFORE_MONTH = [-1, 0, 31, 59, 90, 120, 151, 181, 212, 243, 273, 304, 334]"

definition days_before_year :: "int \<Rightarrow> int" where
  "days_before_year year =
     (let y = year - 1 in y * 365 + y div 4 - y div 100 + y div 400)"

definition days_before_month :: "int \<Rightarrow> nat \<Rightarrow> int" where
  "days_before_month year month =
     DAYS_BEFORE_MONTH ! month + (if month > 2 \<and> is_leap year then 1 else 0)"

definition ymd2ord :: "int \<Rightarrow> nat \<Rightarrow> int \<Rightarrow> int" where
  "ymd2ord year month day = days_before_year year + days_before_month year month + day"

definition ord2ymd :: "int \<Rightarrow> int \<times> nat \<times> int" where
  "ord2ymd ordinal =
     (let n = ordinal - 1;
          n400 = n div 146097; n = n mod 146097;
          year = n400 * 400 + 1;
          n100 = n div 36524; n = n mod 36524;
          n4 = n div 1461; n = n mod 1461;
          n1 = n div 365; n = n mod 365;
          year = year + n100 * 100 + n4 * 4 + n1
      in if n1 = 4 \<or> n100 = 4 then (year - 1, 12, 31)
         else
           let leapyear = (n1 = 3 \<and> (n4 \<noteq> 24 \<or> n100 = 3));
               month = nat ((n + 50) div 32);
               preceding = DAYS_BEFORE_MONTH ! month + (if month > 2 \<and> leapyear then 1 else 0)
           in if preceding > n
              then
                let month = month - 1;
                    preceding = preceding
                      - (DAYS_IN_MONTH ! month + (if month = 2 \<and> leapyear then 1 else 0))
                in (year, month, n - preceding + 1)
              else (year, month, n - preceding + 1))"

definition digit :: "int \<Rightarrow> char" where
  "digit d = char_of (48 + nat (d mod 10))"

definition strftime :: "int \<Rightarrow> string" where
  "strftime ordinal =
     (case ord2ymd ordinal of
        (y, m, d) \<Rightarrow>
          [digit (y div 1000), digit (y div 100), digit (y div 10), digit y] @ ''-''
          @ [digit (int m div 10), digit (int m)] @ ''-''
          @ [digit (d div 10), digit d])"

text \<open>
  Lines 285 to 297, the \<open>while\<close> loop, with \<open>(dates, prices)\<close> as its state. The price of
  lines 289 to 294 is a floating-point expression over \<open>days_since_start\<close> and the string
  hash of the date, which changes from one interpreter process to the next; it is the
  parameter \<open>price_at\<close>, a function of \<open>days_since_start\<close>.
\<close>

function sample_loop ::
  "(int \<Rightarrow> int) \<Rightarrow> int \<Rightarrow> int \<Rightarrow> int \<Rightarrow> string list \<times> int list \<Rightarrow> string list \<times> int list" where
  "sample_loop price_at start_date end_date current_date (dates, prices) =
     (if current_date \<le> end_date then
        sample_loop price_at start_date end_date (current_date + 7)
          (dates @ [strftime current_date], prices @ [price_at (current_date - start_date)])
      else (dates, prices))"
  by pat_completeness auto
termination
  by (relation "measure (\<lambda>(price_at, start_date, end_date, current_date, acc).
        nat (end_date + 1 - current_date))") auto

declare sample_loop.simps [simp del]

definition generate_sample_data :: "(int \<Rightarrow> int) \<Rightarrow> pyval" where
  "generate_sample_data price_at =
     (let start_date = ymd2ord 2022 11 1;
          end_date = ymd2ord 2025 8 2
      in case sample_loop price_at start_date end_date start_date ([], []) of
           (dates, prices) \<Rightarrow> series (PList (map PStr dates)) (PList (map PInt prices)))"

section \<open>scrape\_data.py: save\_to\_csv and scrape\_price\_history\<close>

text \<open>Iterating a value, as \<open>zip\<close> does: the elements of a list, the characters of a
  string, the keys of a dictionary; anything else raises \<open>TypeError\<close>.\<close>

fun py_iter :: "pyval \<Rightarrow> py_error + pyval list" where
  "py_iter (PList xs) = Inr xs"
| "py_iter (PStr s) = Inr (map (\<lambda>c. PStr [c]) s)"
| "py_iter (PDict d) = Inr (map (\<lambda>kv. PStr (fst kv)) d)"
| "py_iter _ = Inl TypeError"

text \<open>
  \<open>save_to_csv\<close> returns its flag and the data rows it wrote after the header. Whether
  the file can be opened and written is the input \<open>file_ok\<close>; the test of line 303 stands
  before the \<open>try\<close>, so an exception there reaches the caller.
\<close>

definition save_to_csv :: "bool \<Rightarrow> pyval \<Rightarrow> py_error + bool \<times> (pyval \<times> pyval) list" where
  "save_to_csv file_ok data =
     py_bind
       (if \<not> truthy data then Inr True
        else py_bind (py_in ''labels'' data) (\<lambda>has_labels.
               if \<not> has_labels then Inr True
               else py_bind (py_in ''data'' data) (\<lambda>has_data. Inr (\<not> has_data)))) (\<lambda>invalid.
       if invalid then Inr (False, [])
       else if \<not> file_ok then Inr (False, [])
       else
         (case py_bind (py_getitem_key data ''labels'') (\<lambda>labels.
               py_bind (py_getitem_key data ''data'') (\<lambda>vals.
               py_bind (py_iter labels) (\<lambda>ls.
               py_bind (py_iter vals) (\<lambda>vs. Inr (zip ls vs))))) of
            Inl e \<Rightarrow> Inr (False, [])
          | Inr rows \<Rightarrow> Inr (True, rows)))"

text \<open>Lines 337 to 344, the body of the \<open>try\<close> for one method: \<open>Some data\<close> is the
  \<open>return data\<close>, \<open>None\<close> falls out of the \<open>if\<close>s to the next method.\<close>

definition try_method :: "bool \<Rightarrow> py_error + pyval \<Rightarrow> py_error + pyval option" where
  "try_method file_ok method_func =
     py_bind method_func (\<lambda>data.
     py_bind (py_and (Inr (truthy data)) (validate_price_data data)) (\<lambda>ok.
       if ok then
         py_bind (save_to_csv file_ok data) (\<lambda>saved.
           if fst saved then Inr (Some data) else Inr None)
       else Inr None))"

fun try_methods :: "bool \<Rightarrow> (py_error + pyval) list \<Rightarrow> pyval" where
  "try_methods file_ok [] = PNone"
| "try_methods file_ok (method_func # rest) =
     (case try_method file_ok method_func of
        Inl e \<Rightarrow> try_methods file_ok rest
      | Inr None \<Rightarrow> try_methods file_ok rest
      | Inr (Some data) \<Rightarrow> data)"

text \<open>The three methods of lines 327 to 331: the browser extraction (its value, or the
  exception it raises, is the input \<open>selenium\<close>), the page source, the sample data.\<close>

definition scrape_price_history ::
  "bool \<Rightarrow> py_error + pyval \<Rightarrow> (py_error + string option list) \<Rightarrow> (pattern \<Rightarrow> string \<Rightarrow> string list)
     \<Rightarrow> (string \<Rightarrow> py_error + pyval) \<Rightarrow> (int \<Rightarrow> int) \<Rightarrow> pyval" where
  "scrape_price_history file_ok selenium fetched findall loads price_at =
     try_methods file_ok
       [selenium, extract_from_page_source fetched findall loads, Inr (generate_sample_data price_at)]"

section \<open>price\_before.py: extract\_product\_info\<close>

text \<open>
  The character classes of Python 3 on the code points below 256: \<open>str.isspace\<close> (used by
  \<open>split()\<close>, \<open>strip()\<close> and the pattern \<^verbatim>\<open>\s\<close>) and the pattern \<^verbatim>\<open>\w\<close>, which is a letter,
  a digit or another numeric character, or the underscore.
\<close>

definition is_space :: "char \<Rightarrow> bool" where
  "is_space c =
     (let n = (of_char c :: nat)
      in (9 \<le> n \<and> n \<le> 13) \<or> (28 \<le> n \<and> n \<le> 32) \<or> n = 133 \<or> n = 160)"

definition is_alnum :: "char \<Rightarrow> bool" where
  "is_alnum c =
     (let n = (of_char c :: nat)
      in (48 \<le> n \<and> n \<le> 57) \<or> (65 \<le> n \<and> n \<le> 90) \<or> (97 \<le> n \<and> n \<le> 122)
         \<or> n = 170 \<or> n = 178 \<or> n = 179 \<or> n = 181 \<or> n = 185 \<or> n = 186
         \<or> (188 \<le> n \<and> n \<le> 190) \<or> (192 \<le> n \<and> n \<le> 214)
         \<or> (216 \<le> n \<and> n \<le> 246) \<or> 248 \<le> n)"

definition is_word :: "char \<Rightarrow> bool" where
  "is_word c = (is_alnum c \<or> c = CHR ''_'')"

text \<open>\<open>s.split()\<close>: the maximal runs of characters that are not whitespace.\<close>

fun split_ws :: "string \<Rightarrow> string \<Rightarrow> string list" where
  "split_ws word [] = (if word = [] then [] else [word])"
| "split_ws word (c # s) =
     (if is_space c then (if word = [] then split_ws [] s else word # split_ws [] s)
      else split_ws (word @ [c]) s)"

definition py_split :: "string \<Rightarrow> string list" where
  "py_split s = split_ws [] s"

definition py_strip :: "string \<Rightarrow> string" where
  "py_strip s = rev (dropWhile is_space (rev (dropWhile is_space s)))"

text \<open>Line 145 (and line 195): \<^verbatim>\<open>re.sub(r'[^\w\s-]', '', word).strip()\<close>.\<close>

definition clean_brand :: "string \<Rightarrow> string" where
  "clean_brand word = py_strip (filter (\<lambda>c. is_word c \<or> is_space c \<or> c = CHR ''-'') word)"

text \<open>
  What the HTML parser finds in a page: for a CSS selector, the stripped text
  (\<open>get_text(strip=True)\<close>) of the first element \<open>select_one\<close> matches, if any; and the
  \<open>og:title\<close> meta tag, if any, with its \<open>content\<close> attribute, if any.
\<close>

record soup =
  select_one :: "string \<Rightarrow> string option"
  og_title :: "string option option"

definition title_selectors :: "string list" where
  \<open>title_selectors = [''h1'', ''.product-title'', ''[class*="title"]'', ''[class*="product-name"]'']\<close>

text \<open>Lines 123 to 127: the first selector with an element gives the title.\<close>

fun first_selected :: "(string \<Rightarrow> string option) \<Rightarrow> string list \<Rightarrow> string option" where
  "first_selected sel [] = None"
| "first_selected sel (selector # rest) =
     (case sel selector of Some text \<Rightarrow> Some text | None \<Rightarrow> first_selected sel rest)"

definition str_truthy :: "string option \<Rightarrow> bool" where
  "str_truthy s = (case s of None \<Rightarrow> False | Some t \<Rightarrow> t \<noteq> [])"

text \<open>\<open>s or dflt\<close> for a string that may be \<open>None\<close>.\<close>

definition str_or :: "string option \<Rightarrow> string \<Rightarrow> string" where
  "str_or s dflt = (case s of None \<Rightarrow> dflt | Some t \<Rightarrow> if t \<noteq> [] then t else dflt)"

record product_info =
  title :: string
  brand :: string

text \<open>Lines 136 to 145: the brand, from the first word of the title.\<close>

definition brand_from_title :: "string option \<Rightarrow> string option" where
  "brand_from_title t =
     (case t of
        None \<Rightarrow> None
      | Some text \<Rightarrow>
          if text \<noteq> [] then
            (case py_split text of [] \<Rightarrow> None | word # _ \<Rightarrow> Some (clean_brand word))
          else None)"

text \<open>Lines 115 to 133: the title, from the selectors or else from the meta tag; \<open>None\<close>
  or empty when neither gives one.\<close>

definition page_title :: "soup \<Rightarrow> string option" where
  "page_title pg =
     (let t = first_selected (select_one pg) title_selectors
      in if \<not> str_truthy t then
           (case og_title pg of
              None \<Rightarrow> t
            | Some content \<Rightarrow> Some (py_strip (case content of None \<Rightarrow> [] | Some c \<Rightarrow> c)))
         else t)"

definition extract_product_info :: "soup \<Rightarrow> product_info" where
  "extract_product_info pg =
     (let t = page_title pg;
          b = brand_from_title t
      in \<lparr>title = str_or t ''Unknown Product'', brand = str_or b ''Unknown Brand''\<rparr>)"

section \<open>price\_before.py: extract\_chart\_data\_advanced\<close>

text \<open>A price entry \<open>{'date': d, 'price': p}\<close> is the pair \<open>(d, p)\<close>.\<close>

type_synonym price_entry = "pyval \<times> pyval"

record product_data = product_info +
  price_data :: "price_entry list"

text \<open>\<open>d.get(key)\<close>: only a dictionary has the method.\<close>

fun py_get :: "pyval \<Rightarrow> string \<Rightarrow> py_error + pyval" where
  "py_get (PDict d) k = Inr (case map_of d k of None \<Rightarrow> PNone | Some v \<Rightarrow> v)"
| "py_get _ k = Inl AttributeError"

text \<open>Lines 262 to 267: the loop over \<open>range(len(labels))\<close>.\<close>

fun pair_loop :: "pyval \<Rightarrow> pyval \<Rightarrow> nat list \<Rightarrow> price_entry list \<Rightarrow> py_error + price_entry list" where
  "pair_loop labels prices [] acc = Inr acc"
| "pair_loop labels prices (i # rest) acc =
     py_bind (py_len prices) (\<lambda>n.
       if i < n then
         py_bind (py_getitem labels i) (\<lambda>d.
         py_bind (py_getitem prices i) (\<lambda>p.
           pair_loop labels prices rest (acc @ [(d, p)])))
       else pair_loop labels prices rest acc)"

definition chart_points :: "pyval \<Rightarrow> pyval \<Rightarrow> py_error + price_entry list" where
  "chart_points labels prices = py_bind (py_len labels) (\<lambda>n. pair_loop labels prices [0..<n] [])"

text \<open>Lines 257 to 269: \<open>Some pts\<close> when the \<open>if\<close> is taken and \<open>price_data\<close> is assigned.\<close>

definition chart_price_data :: "pyval \<Rightarrow> py_error + price_entry list option" where
  "chart_price_data chart_data =
     py_bind
       (if truthy chart_data then
          py_bind (py_get chart_data ''labels'') (\<lambda>l.
            if truthy l then py_bind (py_get chart_data ''data'') (\<lambda>d. Inr (truthy d))
            else Inr False)
        else Inr False) (\<lambda>found.
       if found then
         py_bind (py_getitem_key chart_data ''labels'') (\<lambda>labels.
         py_bind (py_getitem_key chart_data ''data'') (\<lambda>prices.
         py_bind (chart_points labels prices) (\<lambda>pts. Inr (Some pts))))
       else Inr None)"

text \<open>
  The collaborators. A response of \<open>session.get\<close> carries its status, what the HTML parser
  finds in its text, and the list \<open>extract_price_from_html\<close> returns for its text. A
  driver from the pool carries the outcome of loading the page and waiting for the body,
  of reading the text of the \<open>h1\<close> element, and of running the chart script.
\<close>

record response =
  status_code :: nat
  parsed :: soup
  html_prices :: "price_entry list"

record driver =
  navigate :: "py_error option"
  find_h1 :: "py_error + string"
  execute_script :: "py_error + pyval"

text \<open>
  \<open>generate_sample_price_data\<close> (lines 323 to 347). The random draws are inputs:
  \<open>price_draw i days\<close> is the integer of line 338 in iteration \<open>i\<close>, \<open>step_draw i\<close> the raw
  number behind \<open>random.randint(1, 7)\<close>, which always lies between 1 and 7.
\<close>

definition randint_1_7 :: "nat \<Rightarrow> int" where
  "randint_1_7 r = 1 + int (r mod 7)"

function sample_price_loop ::
  "(nat \<Rightarrow> int \<Rightarrow> int) \<Rightarrow> (nat \<Rightarrow> nat) \<Rightarrow> int \<Rightarrow> int \<Rightarrow> nat \<Rightarrow> int \<Rightarrow> price_entry list
     \<Rightarrow> price_entry list" where
  "sample_price_loop price_draw step_draw start_date end_date i current_date acc =
     (if current_date \<le> end_date then
        sample_price_loop price_draw step_draw start_date end_date (Suc i)
          (current_date + randint_1_7 (step_draw i))
          (acc @ [(PStr (strftime current_date),
                   PInt (max 100 (price_draw i (current_date - start_date))))])
      else acc)"
  by pat_completeness auto
termination
  by (relation "measure (\<lambda>(price_draw, step_draw, start_date, end_date, i, current_date, acc).
        nat (end_date + 1 - current_date))") (auto simp: randint_1_7_def)

declare sample_price_loop.simps [simp del]

definition generate_sample_price_data :: "(nat \<Rightarrow> int \<Rightarrow> int) \<Rightarrow> (nat \<Rightarrow> nat) \<Rightarrow> price_entry list" where
  "generate_sample_price_data price_draw step_draw =
     (let start_date = ymd2ord 2022 11 1;
          end_date = ymd2ord 2025 8 2
      in sample_price_loop price_draw step_draw start_date end_date 0 start_date [])"

text \<open>Lines 161 to 176, method 1; the flag says that the function returned at line 173.\<close>

definition method_requests :: "py_error + response \<Rightarrow> product_data \<Rightarrow> product_data \<times> bool" where
  "method_requests got pd =
     (case got of
        Inl e \<Rightarrow> (pd, False)
      | Inr r \<Rightarrow>
          if status_code r = 200 then
            (let info = extract_product_info (parsed r);
                 pd = pd\<lparr>title := title info, brand := brand info\<rparr>
             in if html_prices r \<noteq> [] then (pd\<lparr>price_data := html_prices r\<rparr>, True)
                else (pd, False))
          else (pd, False))"

text \<open>Lines 188 to 198, the inner \<open>try\<close> of method 2.\<close>

definition selenium_title :: "py_error + string \<Rightarrow> product_data \<Rightarrow> product_data" where
  "selenium_title h1 pd =
     (case h1 of
        Inl e \<Rightarrow> pd
      | Inr text \<Rightarrow>
          (let pd = pd\<lparr>title := py_strip text\<rparr>
           in case py_split (title pd) of
                [] \<Rightarrow> pd
              | word # _ \<Rightarrow> pd\<lparr>brand := clean_brand word\<rparr>))"

text \<open>Lines 179 to 273, method 2.\<close>

definition method_selenium :: "driver option \<Rightarrow> product_data \<Rightarrow> product_data" where
  "method_selenium drv pd =
     (case drv of
        None \<Rightarrow> pd
      | Some d \<Rightarrow>
          (case navigate d of
             Some e \<Rightarrow> pd
           | None \<Rightarrow>
               (let pd = selenium_title (find_h1 d) pd
                in case py_bind (execute_script d) chart_price_data of
                     Inl e \<Rightarrow> pd
                   | Inr None \<Rightarrow> pd
                   | Inr (Some pts) \<Rightarrow> pd\<lparr>price_data := pts\<rparr>)))"

definition extract_chart_data_advanced ::
  "py_error + response \<Rightarrow> driver option \<Rightarrow> (nat \<Rightarrow> int \<Rightarrow> int) \<Rightarrow> (nat \<Rightarrow> nat) \<Rightarrow> product_data" where
  "extract_chart_data_advanced got drv price_draw step_draw =
     (case method_requests got
             \<lparr>title = ''Unknown Product'', brand = ''Unknown Brand'', price_data = []\<rparr> of
        (pd, True) \<Rightarrow> pd
      | (pd, False) \<Rightarrow>
          (let pd = method_selenium drv pd
           in if price_data pd = []
              then pd\<lparr>price_data := generate_sample_price_data price_draw step_draw\<rparr>
              else pd))"

section \<open>The shapes a candidate can have\<close>

definition has_key :: "string \<Rightarrow> (string \<times> pyval) list \<Rightarrow> bool" where
  "has_key k d = (k \<in> set (map fst d))"

text \<open>The candidates \<open>validate_price_data\<close> accepts, read off its tests: the values under
  the keys are never looked at.\<close>

fun shape_accepted :: "pyval \<Rightarrow> bool" where
  "shape_accepted (PDict d) =
     ((has_key ''labels'' d \<and> has_key ''data'' d)
      \<or> (has_key ''dates'' d \<and> has_key ''prices'' d)
      \<or> (has_key ''x'' d \<and> has_key ''y'' d))"
| "shape_accepted (PList (PDict f # rest)) =
     (list_ex (\<lambda>k. has_key k f) price_keys \<and> list_ex (\<lambda>k. has_key k f) date_keys)"
| "shape_accepted _ = False"

text \<open>Rules 1 to 4 as the specification words them: rule 1 asks for a \<open>labels\<close> key and a
  \<open>data\<close> key that are array-valued.\<close>

fun array_valued :: "string \<Rightarrow> (string \<times> pyval) list \<Rightarrow> bool" where
  "array_valued k d = (case map_of d k of Some (PList xs) \<Rightarrow> True | _ \<Rightarrow> False)"

fun spec_validate :: "pyval \<Rightarrow> bool" where
  "spec_validate (PDict d) =
     ((array_valued ''labels'' d \<and> array_valued ''data'' d)
      \<or> (has_key ''dates'' d \<and> has_key ''prices'' d)
      \<or> (has_key ''x'' d \<and> has_key ''y'' d))"
| "spec_validate (PList (PDict f # rest)) =
     (list_ex (\<lambda>k. has_key k f) price_keys \<and> list_ex (\<lambda>k. has_key k f) date_keys)"
| "spec_validate _ = False"

text \<open>Candidates whose key structure is malformed: a mapping without a complete key pair
  (the empty mapping among them), the empty sequence, a sequence whose first element is
  not a mapping or is a mapping without a price key or without a date key, and every
  value that is neither a mapping nor a sequence.\<close>

fun malformed_input :: "pyval \<Rightarrow> bool" where
  "malformed_input (PDict d) =
     (\<not> (has_key ''labels'' d \<and> has_key ''data'' d)
      \<and> \<not> (has_key ''dates'' d \<and> has_key ''prices'' d)
      \<and> \<not> (has_key ''x'' d \<and> has_key ''y'' d))"
| "malformed_input (PList (PDict f # rest)) =
     (\<not> list_ex (\<lambda>k. has_key k f) price_keys \<or> \<not> list_ex (\<lambda>k. has_key k f) date_keys)"
| "malformed_input _ = True"

text \<open>A mapping with values of wrong types: its \<open>labels\<close> and \<open>data\<close> keys are there, and
  the values under them are not both arrays.\<close>

definition wrong_typed_values :: "(string \<times> pyval) list \<Rightarrow> bool" where
  "wrong_typed_values d =
     (has_key ''labels'' d \<and> has_key ''data'' d
      \<and> \<not> (array_valued ''labels'' d \<and> array_valued ''data'' d))"

section \<open>The points of a sequence of records\<close>

definition key_matches :: "string list \<Rightarrow> string \<times> pyval \<Rightarrow> bool" where
  "key_matches ks kv = (py_lower (fst kv) \<in> set ks)"

text \<open>The value under the last, respectively the first, key of a record that matches a key
  set without regard to case; \<open>None\<close> when no key matches.\<close>

definition last_match :: "string list \<Rightarrow> (string \<times> pyval) list \<Rightarrow> pyval" where
  "last_match ks d = (case rev (filter (key_matches ks) d) of [] \<Rightarrow> PNone | kv # _ \<Rightarrow> snd kv)"

definition first_match :: "string list \<Rightarrow> (string \<times> pyval) list \<Rightarrow> pyval" where
  "first_match ks d = (case filter (key_matches ks) d of [] \<Rightarrow> PNone | kv # _ \<Rightarrow> snd kv)"

text \<open>The point a record gives under a way of picking its date and its price; an element
  that is not a mapping, or a record one of whose picks is \<open>None\<close>, gives no point.\<close>

fun record_point ::
  "(string list \<Rightarrow> (string \<times> pyval) list \<Rightarrow> pyval) \<Rightarrow> pyval \<Rightarrow> (pyval \<times> pyval) option" where
  "record_point pick (PDict d) =
     (if pick date_keys d \<noteq> PNone \<and> pick price_keys d \<noteq> PNone
      then Some (pick date_keys d, pick price_keys d) else None)"
| "record_point pick _ = None"

definition points_series :: "(pyval \<times> pyval) list \<Rightarrow> pyval" where
  "points_series pts = series (PList (map fst pts)) (PList (map snd pts))"

text \<open>The normalisation of a sequence of records as the specification words it: the first
  matching key of each kind.\<close>

definition spec_format_records :: "pyval list \<Rightarrow> pyval" where
  "spec_format_records items = points_series (List.map_filter (record_point first_match) items)"

text \<open>The normalisation of a \<open>labels\<close>/\<open>data\<close> mapping as the specification words it: only the
  pairs up to the shorter length are emitted.\<close>

definition spec_format_labels_data :: "pyval list \<Rightarrow> pyval list \<Rightarrow> pyval" where
  "spec_format_labels_data ls ps = points_series (zip ls ps)"

section \<open>The matches of a page\<close>

definition decodes :: "(string \<Rightarrow> py_error + pyval) \<Rightarrow> string \<Rightarrow> bool" where
  "decodes loads m = (case loads m of Inl e \<Rightarrow> False | Inr data \<Rightarrow> True)"

definition decodes_and_validates :: "(string \<Rightarrow> py_error + pyval) \<Rightarrow> string \<Rightarrow> bool" where
  "decodes_and_validates loads m =
     (case loads m of Inl e \<Rightarrow> False | Inr data \<Rightarrow> validate_price_data data = Inr True)"

definition formatted_match :: "(string \<Rightarrow> py_error + pyval) \<Rightarrow> string \<Rightarrow> pyval" where
  "formatted_match loads m =
     (case py_bind (loads m) format_price_data of Inl e \<Rightarrow> PNone | Inr r \<Rightarrow> r)"

definition first_valid_opt :: "(string \<Rightarrow> py_error + pyval) \<Rightarrow> string list \<Rightarrow> pyval option" where
  "first_valid_opt loads ms =
     (case filter (decodes_and_validates loads) ms of
        [] \<Rightarrow> None
      | m # _ \<Rightarrow> Some (formatted_match loads m))"

text \<open>The first substring of a list that decodes and passes the validator, formatted;
  \<open>None\<close> when there is none.\<close>

definition first_valid :: "(string \<Rightarrow> py_error + pyval) \<Rightarrow> string list \<Rightarrow> pyval" where
  "first_valid loads ms =
     (case filter (decodes_and_validates loads) ms of
        [] \<Rightarrow> PNone
      | m # _ \<Rightarrow> formatted_match loads m)"

fun script_contents :: "string option list \<Rightarrow> string list" where
  "script_contents [] = []"
| "script_contents (None # ss) = script_contents ss"
| "script_contents (Some content # ss) =
     (if content \<noteq> [] then content # script_contents ss else script_contents ss)"

text \<open>All the matches of a page in scan order (scripts, then patterns, then matches), and
  those the scan reaches: of each pattern's matches, the ones before the first that
  fails to decode.\<close>

definition all_matches :: "(pattern \<Rightarrow> string \<Rightarrow> string list) \<Rightarrow> string option list \<Rightarrow> string list" where
  "all_matches findall scripts =
     concat (map (\<lambda>content. concat (map (\<lambda>p. findall p content) patterns)) (script_contents scripts))"

definition reached_matches ::
  "(pattern \<Rightarrow> string \<Rightarrow> string list) \<Rightarrow> (string \<Rightarrow> py_error + pyval)
     \<Rightarrow> string option list \<Rightarrow> string list" where
  "reached_matches findall loads scripts =
     concat (map (\<lambda>content. concat (map (\<lambda>p. takeWhile (decodes loads) (findall p content)) patterns))
       (script_contents scripts))"

text \<open>What \<open>re.findall\<close> and \<open>json.loads\<close> give on a page whose script assigns \<open>chartData\<close>
  twice, first to an object literal that is not JSON, then to a JSON object: the first
  pattern matches both, the other patterns match nothing.\<close>

definition demo_findall :: "pattern \<Rightarrow> string \<Rightarrow> string list" where
  \<open>demo_findall p content =
     (if p = ChartDataObject then [''{labels: none}'', ''{"labels": [1], "data": [2]}''] else [])\<close>

definition demo_loads :: "string \<Rightarrow> py_error + pyval" where
  \<open>demo_loads s =
     (if s = ''{"labels": [1], "data": [2]}''
      then Inr (PDict [(''labels'', PList [PInt 1]), (''data'', PList [PInt 2])])
      else Inl JSONDecodeError)\<close>

section \<open>Strategies that decline\<close>

text \<open>Method 1 of \<open>extract_chart_data_advanced\<close> declines when the request raises, the
  status is not 200, or no prices are embedded in the page; method 2 when there is no
  driver, the page does not load, or the script raises or yields no usable chart data.\<close>

definition requests_declines :: "py_error + response \<Rightarrow> bool" where
  "requests_declines got =
     (case got of Inl e \<Rightarrow> True | Inr r \<Rightarrow> status_code r \<noteq> 200 \<or> html_prices r = [])"

definition selenium_declines :: "driver option \<Rightarrow> bool" where
  "selenium_declines drv =
     (case drv of
        None \<Rightarrow> True
      | Some d \<Rightarrow>
          (case navigate d of
             Some e \<Rightarrow> True
           | None \<Rightarrow>
               (case py_bind (execute_script d) chart_price_data of
                  Inr (Some pts) \<Rightarrow> False
                | _ \<Rightarrow> True)))"

text \<open>A driver whose page loads, has no \<open>h1\<close> element, and holds a chart without a point:
  the script returns \<open>{labels: [], data: []}\<close>.\<close>

definition empty_chart_driver :: driver where
  "empty_chart_driver =
     \<lparr>navigate = None, find_h1 = Inl WebDriverException,
      execute_script = Inr (series (PList []) (PList []))\<rparr>"

text \<open>What \<open>re.findall\<close> and \<open>json.loads\<close> give on a page whose script assigns to \<open>chartData\<close>
  an object with the keys \<open>x\<close> and \<open>y\<close>: the first pattern matches it, the other patterns
  match nothing.\<close>

definition xy_findall :: "pattern \<Rightarrow> string \<Rightarrow> string list" where
  \<open>xy_findall p content = (if p = ChartDataObject then [''{"x": [1], "y": [2]}''] else [])\<close>

definition xy_loads :: "string \<Rightarrow> py_error + pyval" where
  \<open>xy_loads s =
     (if s = ''{"x": [1], "y": [2]}''
      then Inr (PDict [(''x'', PList [PInt 1]), (''y'', PList [PInt 2])])
      else Inl JSONDecodeError)\<close>

section \<open>The brand of a title\<close>

definition kept_in_brand :: "char \<Rightarrow> bool" where
  "kept_in_brand c = (is_word c \<or> c = CHR ''-'')"

text \<open>The first whitespace-separated token of a title with every character removed that is
  neither a word character nor a hyphen, or the placeholder when nothing is left.\<close>

definition brand_or_placeholder :: "string \<Rightarrow> string" where
  "brand_or_placeholder t =
     (case py_split t of
        [] \<Rightarrow> ''Unknown Brand''
      | token # _ \<Rightarrow>
          if filter kept_in_brand token = [] then ''Unknown Brand''
          else filter kept_in_brand token)"

text \<open>A page whose only title element is an \<open>h1\<close> with the given text.\<close>

definition h1_page :: "string \<Rightarrow> soup" where
  "h1_page text = \<lparr>select_one = (\<lambda>s. if s = ''h1'' then Some text else None), og_title = None\<rparr>"

text \<open>The brand as the specification words it: the first token of the title that has an
  alphanumeric character, with its punctuation stripped.\<close>

definition spec_brand :: "string \<Rightarrow> string" where
  "spec_brand t =
     (case filter (list_ex is_alnum) (py_split t) of
        [] \<Rightarrow> ''Unknown Brand''
      | token # _ \<Rightarrow> filter is_alnum token)"

section \<open>Properties of validate\_price\_data\<close>

lemma py_any_in_dict:
  "py_any (map (\<lambda>key. py_in key (PDict f)) ks) = Inr (list_ex (\<lambda>k. has_key k f) ks)"
  by (induction ks) (simp_all add: has_key_def)

lemma dict_rules_dict:
  "dict_rules (PDict d) =
     Inr ((has_key ''labels'' d \<and> has_key ''data'' d)
          \<or> (has_key ''dates'' d \<and> has_key ''prices'' d)
          \<or> (has_key ''x'' d \<and> has_key ''y'' d))"
  by (simp add: dict_rules_def py_bind_def py_and_def has_key_def)

lemma list_rule_value:
  "list_rule v =
     Inr (case v of PList (PDict f # rest) \<Rightarrow>
            list_ex (\<lambda>k. has_key k f) price_keys \<and> list_ex (\<lambda>k. has_key k f) date_keys
          | _ \<Rightarrow> False)"
proof (cases v)
  case (PList xs)
  show ?thesis
  proof (cases xs)
    case Nil
    with PList show ?thesis by (simp add: list_rule_def py_bind_def)
  next
    case (Cons x rest)
    show ?thesis
    proof (cases x)
      case (PDict f)
      with PList Cons show ?thesis
        by (simp add: list_rule_def py_bind_def py_any_in_dict del: py_in.simps)
    qed (simp_all add: PList Cons list_rule_def py_bind_def)
  qed
qed (simp_all add: list_rule_def)

lemma validate_price_data_eq: "validate_price_data v = Inr (shape_accepted v)"
proof (cases v)
  case (PDict d)
  then show ?thesis
    by (cases d)
       (auto simp: validate_price_data_def dict_rules_dict list_rule_value py_bind_def has_key_def)
next
  case (PList xs)
  then show ?thesis
  proof (cases xs)
    case Nil
    with PList show ?thesis by (simp add: validate_price_data_def)
  next
    case (Cons x rest)
    with PList show ?thesis
      by (cases x) (simp_all add: validate_price_data_def list_rule_value py_bind_def)
  qed
qed (simp_all add: validate_price_data_def list_rule_value py_bind_def)

text \<open>
  C1, as the code has it: \<open>validate_price_data\<close> returns true for exactly the candidates
  that are a mapping with both a \<open>labels\<close> and a \<open>data\<close> key, a mapping with both a \<open>dates\<close>
  and a \<open>prices\<close> key, a mapping with both an \<open>x\<close> and a \<open>y\<close> key, or a non-empty sequence
  whose first element is a mapping with at least one of the keys \<open>price\<close>, \<open>value\<close>, \<open>y\<close>,
  \<open>amount\<close> and at least one of the keys \<open>date\<close>, \<open>time\<close>, \<open>x\<close>, \<open>timestamp\<close>; it returns false
  for every other candidate. The values under the keys play no part: the \<open>labels\<close> and
  \<open>data\<close> values need not be arrays.
\<close>

theorem validate_price_data_accepts_iff:
  "(validate_price_data v = Inr True \<longleftrightarrow> shape_accepted v)
   \<and> (validate_price_data v = Inr False \<longleftrightarrow> \<not> shape_accepted v)"
  by (simp add: validate_price_data_eq)

text \<open>
  C1 as stated asks the \<open>labels\<close> and \<open>data\<close> keys of rule 1 to be array-valued. The mapping
  \<open>{"labels": 1, "data": 2}\<close> matches none of the four rules so read, and is accepted.
\<close>

theorem validate_price_data_array_counterexample:
  "validate_price_data (PDict [(''labels'', PInt 1), (''data'', PInt 2)]) = Inr True
   \<and> spec_validate (PDict [(''labels'', PInt 1), (''data'', PInt 2)]) = False"
  by (simp add: validate_price_data_def dict_rules_def py_bind_def py_and_def has_key_def)

text \<open>
  C6, as the code has it: \<open>validate_price_data\<close> is total and never raises: on every
  candidate it returns a boolean. The boolean is false exactly when the key structure of
  the candidate is malformed: on a mapping that lacks every key pair, on the empty
  mapping and the empty sequence, on a sequence whose first element is not a mapping or
  is a mapping without a price key or without a date key, and on every scalar. The types
  of the values under the keys are not looked at: a mapping that has the \<open>labels\<close> and
  \<open>data\<close> keys with values of wrong types is accepted.
\<close>

theorem validate_price_data_total:
  "(\<exists>b. validate_price_data v = Inr b)
   \<and> (validate_price_data v = Inr False \<longleftrightarrow> malformed_input v)
   \<and> (wrong_typed_values d \<longrightarrow> validate_price_data (PDict d) = Inr True)"
proof -
  have "malformed_input v \<longleftrightarrow> \<not> shape_accepted v"
    by (induction v rule: shape_accepted.induct) simp_all
  moreover have "wrong_typed_values d \<longrightarrow> shape_accepted (PDict d)"
    by (simp add: wrong_typed_values_def)
  ultimately show ?thesis
    by (simp add: validate_price_data_eq)
qed

theorem validate_price_data_total_witness:
  "malformed_input (PDict []) \<and> validate_price_data (PDict []) = Inr False
   \<and> malformed_input (PList []) \<and> validate_price_data (PList []) = Inr False
   \<and> malformed_input (PList [PInt 1, PStr ''a''])
   \<and> validate_price_data (PList [PInt 1, PStr ''a'']) = Inr False
   \<and> malformed_input (PList [PDict [(''date'', PStr ''d'')]])
   \<and> validate_price_data (PList [PDict [(''date'', PStr ''d'')]]) = Inr False
   \<and> malformed_input (PDict [(''labels'', PList [])])
   \<and> validate_price_data (PDict [(''labels'', PList [])]) = Inr False
   \<and> malformed_input (PInt 7) \<and> validate_price_data (PInt 7) = Inr False
   \<and> wrong_typed_values [(''labels'', PInt 1), (''data'', PList [])]
   \<and> validate_price_data (PDict [(''labels'', PInt 1), (''data'', PList [])]) = Inr True"
proof -
  have w: "wrong_typed_values [(''labels'', PInt 1), (''data'', PList [])]"
    by (simp add: wrong_typed_values_def has_key_def)
  have m: "malformed_input (PDict []) \<and> malformed_input (PList [])
           \<and> malformed_input (PList [PInt 1, PStr ''a''])
           \<and> malformed_input (PList [PDict [(''date'', PStr ''d'')]])
           \<and> malformed_input (PDict [(''labels'', PList [])]) \<and> malformed_input (PInt 7)"
    by (simp add: has_key_def price_keys_def date_keys_def)
  from w m validate_price_data_total [of "PDict []" "[(''labels'', PInt 1), (''data'', PList [])]"]
    validate_price_data_total [of "PList []" "[]"]
    validate_price_data_total [of "PList [PInt 1, PStr ''a'']" "[]"]
    validate_price_data_total [of "PList [PDict [(''date'', PStr ''d'')]]" "[]"]
    validate_price_data_total [of "PDict [(''labels'', PList [])]" "[]"]
    validate_price_data_total [of "PInt 7" "[]"]
  show ?thesis by blast
qed

text \<open>
  C6 as stated has the validator return false on structurally malformed input, values of
  wrong types among it. The mapping \<open>{"labels": "Jan", "data": 5}\<close> has no array under
  either key, and the validator returns true.
\<close>

theorem validate_price_data_wrong_types_counterexample:
  "wrong_typed_values [(''labels'', PStr ''Jan''), (''data'', PInt 5)]
   \<and> validate_price_data (PDict [(''labels'', PStr ''Jan''), (''data'', PInt 5)]) = Inr True"
  by (simp add: wrong_typed_values_def validate_price_data_def dict_rules_def py_bind_def
        py_and_def has_key_def)

section \<open>Properties of format\_price\_data\<close>

lemma format_price_data_total: "\<exists>r. format_price_data v = Inr r"
proof (cases v)
  case (PDict d)
  show ?thesis
    by (simp add: PDict format_price_data_def py_bind_def py_and_def map_of_eq_None_iff
          split: option.splits)
next
  case (PList items)
  then show ?thesis
    by (simp add: format_price_data_def split: prod.splits)
qed (simp_all add: format_price_data_def)

text \<open>
  C9: a mapping that the validator accepts through its \<open>x\<close> and \<open>y\<close> keys only (it has
  neither the \<open>labels\<close>/\<open>data\<close> pair nor the \<open>dates\<close>/\<open>prices\<close> pair) is formatted to the
  empty series \<open>{labels: [], data: []}\<close>: the values under \<open>x\<close> and \<open>y\<close> are dropped.
\<close>

theorem format_price_data_xy_empty:
  assumes "validate_price_data (PDict d) = Inr True"
    and "\<not> (has_key ''labels'' d \<and> has_key ''data'' d)"
    and "\<not> (has_key ''dates'' d \<and> has_key ''prices'' d)"
  shows "has_key ''x'' d \<and> has_key ''y'' d
         \<and> format_price_data (PDict d) = Inr (series (PList []) (PList []))"
proof -
  from assms(1) have "shape_accepted (PDict d)"
    by (simp add: validate_price_data_eq)
  with assms(2,3) have xy: "has_key ''x'' d \<and> has_key ''y'' d"
    by auto
  from assms(2,3) have "format_price_data (PDict d) = Inr (series (PList []) (PList []))"
    by (auto simp: format_price_data_def py_bind_def py_and_def has_key_def)
  with xy show ?thesis by simp
qed

theorem format_price_data_xy_empty_witness:
  "validate_price_data (PDict [(''x'', PList [PStr ''2023-01-01'']), (''y'', PList [PInt 999])])
     = Inr True
   \<and> format_price_data (PDict [(''x'', PList [PStr ''2023-01-01'']), (''y'', PList [PInt 999])])
     = Inr (series (PList []) (PList []))"
proof -
  let ?d = "[(''x'', PList [PStr ''2023-01-01'']), (''y'', PList [PInt 999])]"
  have v: "validate_price_data (PDict ?d) = Inr True"
    by (simp add: validate_price_data_def dict_rules_def py_bind_def py_and_def)
  have a: "\<not> (has_key ''labels'' ?d \<and> has_key ''data'' ?d)" by (simp add: has_key_def)
  have b: "\<not> (has_key ''dates'' ?d \<and> has_key ''prices'' ?d)" by (simp add: has_key_def)
  from format_price_data_xy_empty [OF v a b] v show ?thesis by simp
qed

text \<open>
  C10: the keys of a record are matched with regard to case by the validator and without
  regard to case by the formatter. The sequence \<open>[{"Date": "2023-01-01", "Price": 10}]\<close> is
  rejected by \<open>validate_price_data\<close>, while \<open>format_price_data\<close> makes a point of it.
\<close>

theorem capitalised_keys_rejected_yet_formatted:
  "validate_price_data (PList [PDict [(''Date'', PStr ''2023-01-01''), (''Price'', PInt 10)]])
     = Inr False
   \<and> format_price_data (PList [PDict [(''Date'', PStr ''2023-01-01''), (''Price'', PInt 10)]])
     = Inr (series (PList [PStr ''2023-01-01'']) (PList [PInt 10]))"
  by code_simp

lemma keys_disjoint: "k \<in> set date_keys \<Longrightarrow> k \<notin> set price_keys"
  by (auto simp: date_keys_def price_keys_def)

lemma scan_items_last:
  "scan_items d (dv, pv) =
     (case rev (filter (key_matches date_keys) d) of [] \<Rightarrow> dv | kv # _ \<Rightarrow> snd kv,
      case rev (filter (key_matches price_keys) d) of [] \<Rightarrow> pv | kv # _ \<Rightarrow> snd kv)"
proof (induction d arbitrary: dv pv)
  case Nil
  then show ?case by simp
next
  case (Cons kv d)
  obtain k v where kv: "kv = (k, v)" by (cases kv)
  show ?case
    using keys_disjoint [of "py_lower k"]
    by (auto simp: kv Cons.IH key_matches_def split: list.splits)
qed

lemma scan_items_None:
  "scan_items d (PNone, PNone) = (last_match date_keys d, last_match price_keys d)"
  by (simp add: scan_items_last last_match_def)

lemma format_list_points:
  "format_list items (ls, vs) =
     (ls @ map fst (List.map_filter (record_point last_match) items),
      vs @ map snd (List.map_filter (record_point last_match) items))"
proof (induction items arbitrary: ls vs)
  case Nil
  then show ?case by (simp add: List.map_filter_simps)
next
  case (Cons item items)
  show ?case
    by (cases item) (simp_all add: Cons.IH List.map_filter_simps scan_items_None)
qed

text \<open>
  C3, as the code has it: formatting a sequence of records scans the key-value pairs of
  each record and takes as the point's date the value under the last key that matches
  \<open>date\<close>, \<open>time\<close>, \<open>x\<close> or \<open>timestamp\<close> without regard to case, and as its price the value
  under the last key that matches \<open>price\<close>, \<open>value\<close>, \<open>y\<close> or \<open>amount\<close>; a record that lacks
  either (or whose value there is \<open>None\<close>) and an element that is not a mapping are dropped
  silently. In particular \<open>[{"time": "t1", "value": 10}, {"x": "t2"}]\<close> is formatted to the
  one point with date \<open>t1\<close> and price 10.
\<close>

theorem format_price_data_records:
  "format_price_data (PList items)
     = Inr (points_series (List.map_filter (record_point last_match) items))
   \<and> format_price_data (PList [PDict [(''time'', PStr ''t1''), (''value'', PInt 10)],
                                 PDict [(''x'', PStr ''t2'')]])
     = Inr (series (PList [PStr ''t1'']) (PList [PInt 10]))"
proof
  show "format_price_data (PList items)
     = Inr (points_series (List.map_filter (record_point last_match) items))"
    by (simp add: format_price_data_def format_list_points points_series_def)
  show "format_price_data (PList [PDict [(''time'', PStr ''t1''), (''value'', PInt 10)],
                                 PDict [(''x'', PStr ''t2'')]])
     = Inr (series (PList [PStr ''t1'']) (PList [PInt 10]))"
    by code_simp
qed

text \<open>
  C3 as stated takes the first matching key. In the record
  \<open>{"date": "2023-01-01", "timestamp": 1672531200, "price": 999}\<close> two keys match the date
  set: the code keeps the value of the later one, the first-key reading the earlier one.
\<close>

theorem format_price_data_first_key_counterexample:
  "format_price_data (PList [PDict [(''date'', PStr ''2023-01-01''),
                                    (''timestamp'', PInt 1672531200), (''price'', PInt 999)]])
     = Inr (series (PList [PInt 1672531200]) (PList [PInt 999]))
   \<and> spec_format_records [PDict [(''date'', PStr ''2023-01-01''),
                                  (''timestamp'', PInt 1672531200), (''price'', PInt 999)]]
     = series (PList [PStr ''2023-01-01'']) (PList [PInt 999])"
  by code_simp

section \<open>Properties of extract\_from\_page\_source\<close>

lemma formatted_match_eq:
  "loads m = Inr data \<Longrightarrow> format_price_data data = Inr (formatted_match loads m)"
  using format_price_data_total [of data]
  by (auto simp: formatted_match_def py_bind_def)

lemma first_valid_opt_append:
  "first_valid_opt loads (xs @ ys) =
     (case first_valid_opt loads xs of Some r \<Rightarrow> Some r | None \<Rightarrow> first_valid_opt loads ys)"
  by (simp add: first_valid_opt_def split: list.splits)

lemma try_matches_reached:
  "(case try_matches loads ms of Inl e \<Rightarrow> None | Inr res \<Rightarrow> res)
     = first_valid_opt loads (takeWhile (decodes loads) ms)"
proof (induction ms)
  case Nil
  then show ?case by (simp add: first_valid_opt_def)
next
  case (Cons m ms)
  show ?case
  proof (cases "loads m")
    case (Inl e)
    then show ?thesis by (simp add: py_bind_def decodes_def first_valid_opt_def)
  next
    case (Inr data)
    then have dec: "decodes loads m" by (simp add: decodes_def)
    show ?thesis
    proof (cases "shape_accepted data")
      case True
      with Inr have "decodes_and_validates loads m"
        by (simp add: decodes_and_validates_def validate_price_data_eq)
      with Inr True dec formatted_match_eq [of loads m data] show ?thesis
        by (simp add: py_bind_def validate_price_data_eq first_valid_opt_def)
    next
      case False
      with Inr have "\<not> decodes_and_validates loads m"
        by (simp add: decodes_and_validates_def validate_price_data_eq)
      with Inr False dec Cons.IH show ?thesis
        by (simp add: py_bind_def validate_price_data_eq first_valid_opt_def)
    qed
  qed
qed

lemma scan_patterns_reached:
  "scan_patterns findall loads content ps
     = first_valid_opt loads (concat (map (\<lambda>p. takeWhile (decodes loads) (findall p content)) ps))"
proof (induction ps)
  case Nil
  then show ?case by (simp add: first_valid_opt_def)
next
  case (Cons p ps)
  show ?case
  proof (cases "findall p content = []")
    case True
    with Cons.IH show ?thesis by (simp add: first_valid_opt_append first_valid_opt_def)
  next
    case False
    with Cons.IH try_matches_reached [of loads "findall p content"] show ?thesis
      by (auto simp: first_valid_opt_append Let_def split: sum.splits option.splits)
  qed
qed

lemma scan_scripts_reached:
  "scan_scripts findall loads scripts = first_valid_opt loads (reached_matches findall loads scripts)"
proof (induction scripts)
  case Nil
  then show ?case by (simp add: first_valid_opt_def reached_matches_def)
next
  case (Cons s ss)
  show ?case
  proof (cases s)
    case None
    with Cons.IH show ?thesis by (simp add: reached_matches_def)
  next
    case (Some content)
    with Cons.IH show ?thesis
      by (simp add: reached_matches_def scan_patterns_reached first_valid_opt_append
            split: option.splits)
  qed
qed

text \<open>
  C5, as the code has it: the page-source extractor never raises; when the request fails
  it returns \<open>None\<close>, and otherwise it returns the formatted form of the first substring,
  in scan order, that decodes and passes the validator among the substrings it reaches,
  or \<open>None\<close> when there is none. A decode failure is swallowed, but it ends the scan of
  the pattern whose match failed: the later matches of that pattern are not reached, and
  the scan goes on with the next pattern.
\<close>

theorem extract_from_page_source_scan:
  "extract_from_page_source (Inl e) findall loads = Inr PNone
   \<and> extract_from_page_source (Inr scripts) findall loads
       = Inr (first_valid loads (reached_matches findall loads scripts))"
  by (simp add: extract_from_page_source_def scan_scripts_reached first_valid_opt_def first_valid_def
        split: list.splits)

text \<open>
  C5 as stated returns the first matched substring that decodes and validates. On a page
  whose script is \<open>chartData = {labels: none}; chartData = {"labels": [1], "data": [2]}\<close>
  the first pattern matches \<open>{labels: none}\<close>, which does not decode, and then
  \<open>{"labels": [1], "data": [2]}\<close>, which decodes and validates; no other pattern matches.
  The extractor returns \<open>None\<close>: the failure on the first match skips the second.
\<close>

theorem extract_from_page_source_counterexample:
  \<open>extract_from_page_source
       (Inr [Some ''chartData = {labels: none}; chartData = {"labels": [1], "data": [2]}''])
       demo_findall demo_loads = Inr PNone
   \<and> first_valid demo_loads
         (all_matches demo_findall
            [Some ''chartData = {labels: none}; chartData = {"labels": [1], "data": [2]}''])
       = PDict [(''labels'', PList [PInt 1]), (''data'', PList [PInt 2])]\<close>
  by code_simp

section \<open>Properties of generate\_sample\_data\<close>

lemma map_upt_shift: "map f [0..<Suc n] = f 0 # map (\<lambda>i. f (Suc i)) [0..<n]"
  by (simp add: map_upt_Suc del: upt_Suc)

lemma sample_loop_weekly:
  "end_date < current_date + 7 * int n \<Longrightarrow>
   (n = 0 \<or> current_date + 7 * (int n - 1) \<le> end_date) \<Longrightarrow>
   sample_loop price_at start_date end_date current_date (dates, prices) =
     (dates @ map (\<lambda>i. strftime (current_date + 7 * int i)) [0..<n],
      prices @ map (\<lambda>i. price_at (current_date + 7 * int i - start_date)) [0..<n])"
proof (induction n arbitrary: current_date dates prices)
  case 0
  then show ?case by (simp add: sample_loop.simps)
next
  case (Suc n)
  from Suc.prems have le: "current_date \<le> end_date" by auto
  have a: "end_date < (current_date + 7) + 7 * int n" using Suc.prems by simp
  have b: "n = 0 \<or> (current_date + 7) + 7 * (int n - 1) \<le> end_date" using Suc.prems by auto
  have step: "current_date + 7 + 7 * int i = current_date + 7 * int (Suc i)" for i
    by simp
  have "sample_loop price_at start_date end_date current_date (dates, prices)
      = sample_loop price_at start_date end_date (current_date + 7)
          (dates @ [strftime current_date], prices @ [price_at (current_date - start_date)])"
    using le by (subst sample_loop.simps) simp
  also have "\<dots> = ((dates @ [strftime current_date])
                      @ map (\<lambda>i. strftime (current_date + 7 * int (Suc i))) [0..<n],
                   (prices @ [price_at (current_date - start_date)])
                      @ map (\<lambda>i. price_at (current_date + 7 * int (Suc i) - start_date)) [0..<n])"
    by (simp only: Suc.IH [OF a b] step)
  also have "\<dots> = (dates @ map (\<lambda>i. strftime (current_date + 7 * int i)) [0..<Suc n],
                   prices @ map (\<lambda>i. price_at (current_date + 7 * int i - start_date)) [0..<Suc n])"
    by (simp add: map_upt_shift [of "\<lambda>i. strftime (current_date + 7 * int i)"]
          map_upt_shift [of "\<lambda>i. price_at (current_date + 7 * int i - start_date)"] del: upt_Suc)
  finally show ?case .
qed

lemma start_ordinal: "ymd2ord 2022 11 1 = 738460"
  by (simp add: ymd2ord_def days_before_year_def days_before_month_def DAYS_BEFORE_MONTH_def
        is_leap_def)

lemma end_ordinal: "ymd2ord 2025 8 2 = 739465"
  by (simp add: ymd2ord_def days_before_year_def days_before_month_def DAYS_BEFORE_MONTH_def
        is_leap_def)

lemma generate_sample_data_eq:
  "generate_sample_data price_at =
     series (PList (map (\<lambda>i. PStr (strftime (ymd2ord 2022 11 1 + 7 * int i))) [0..<144]))
            (PList (map (\<lambda>i. PInt (price_at (7 * int i))) [0..<144]))"
proof -
  have "sample_loop price_at 738460 739465 738460 ([], []) =
     ([] @ map (\<lambda>i. strftime (738460 + 7 * int i)) [0..<144],
      [] @ map (\<lambda>i. price_at (738460 + 7 * int i - 738460)) [0..<144])"
    by (rule sample_loop_weekly) simp_all
  then show ?thesis
    by (simp add: generate_sample_data_def start_ordinal end_ordinal comp_def)
qed

text \<open>
  C7: with its fixed spacing of seven days, from 2022-11-01 through 2025-08-02 inclusive,
  \<open>generate_sample_data\<close> produces 144 points whatever the prices are: as many as there
  are weekly dates in the range (the range spans 1005 days, and 1005 div 7 + 1 = 144; the
  date 143 weeks after the start is still in the range, the next one is past its end).
  The date of point \<open>i\<close> is the start date plus \<open>7 * i\<close> days, the first being 2022-11-01
  and the last 2025-07-29.
\<close>

theorem generate_sample_data_weekly:
  "generate_sample_data price_at =
     series (PList (map (\<lambda>i. PStr (strftime (ymd2ord 2022 11 1 + 7 * int i))) [0..<144]))
            (PList (map (\<lambda>i. PInt (price_at (7 * int i))) [0..<144]))
   \<and> 144 = nat ((ymd2ord 2025 8 2 - ymd2ord 2022 11 1) div 7 + 1)
   \<and> ymd2ord 2022 11 1 + 7 * 143 \<le> ymd2ord 2025 8 2
   \<and> ymd2ord 2025 8 2 < ymd2ord 2022 11 1 + 7 * 144
   \<and> strftime (ymd2ord 2022 11 1) = ''2022-11-01''
   \<and> strftime (ymd2ord 2022 11 1 + 7 * 143) = ''2025-07-29''
   \<and> strftime (ymd2ord 2025 8 2) = ''2025-08-02''"
proof -
  have "144 = nat ((ymd2ord 2025 8 2 - ymd2ord 2022 11 1) div 7 + 1)"
    by (simp add: start_ordinal end_ordinal)
  moreover have "ymd2ord 2022 11 1 + 7 * 143 \<le> ymd2ord 2025 8 2"
    by (simp add: start_ordinal end_ordinal)
  moreover have "ymd2ord 2025 8 2 < ymd2ord 2022 11 1 + 7 * 144"
    by (simp add: start_ordinal end_ordinal)
  moreover have "strftime (ymd2ord 2022 11 1) = ''2022-11-01''" by code_simp
  moreover have "strftime (ymd2ord 2022 11 1 + 7 * 143) = ''2025-07-29''" by code_simp
  moreover have "strftime (ymd2ord 2025 8 2) = ''2025-08-02''" by code_simp
  ultimately show ?thesis
    using generate_sample_data_eq [of price_at] by simp
qed

theorem generate_sample_data_weekly_witness:
  "generate_sample_data (\<lambda>days. 2999) =
     series (PList (map (\<lambda>i. PStr (strftime (ymd2ord 2022 11 1 + 7 * int i))) [0..<144]))
            (PList (map (\<lambda>i. PInt 2999) [0..<144]))"
  using generate_sample_data_weekly [of "\<lambda>days. 2999"] by simp

section \<open>Pairing labels with data\<close>

lemma filter_less_upt: "filter (\<lambda>i. i < m) [0..<n] = [0..<min n m]"
proof (induction n)
  case 0
  then show ?case by simp
next
  case (Suc n)
  show ?case
  proof (cases "n < m")
    case True
    with Suc show ?thesis by (simp add: min_def)
  next
    case False
    then have "min (Suc n) m = m" "min n m = m" by simp_all
    with Suc False show ?thesis by simp
  qed
qed

lemma zip_as_map_nth: "zip ls ps = map (\<lambda>i. (ls ! i, ps ! i)) [0..<min (length ls) (length ps)]"
  by (rule nth_equalityI) simp_all

lemma pair_loop_lists:
  "\<forall>i\<in>set idx. i < length ls \<Longrightarrow>
   pair_loop (PList ls) (PList ps) idx acc
     = Inr (acc @ map (\<lambda>i. (ls ! i, ps ! i)) (filter (\<lambda>i. i < length ps) idx))"
  by (induction idx arbitrary: acc) (simp_all add: py_bind_def)

lemma chart_points_lists: "chart_points (PList ls) (PList ps) = Inr (zip ls ps)"
  by (simp add: chart_points_def py_bind_def pair_loop_lists filter_less_upt zip_as_map_nth)

text \<open>
  C4, as the code has it: when the \<open>labels\<close> and \<open>data\<close> arrays of a validated mapping differ
  in length, \<open>format_price_data\<close> raises no error and hands the mapping on as it is, with
  every label and every data value (5 labels and 3 data values stay 5 and 3). The pairs
  up to the shorter length are made where the two arrays are read side by side: the rows
  \<open>save_to_csv\<close> writes are the pairs \<open>zip\<close> forms, and the entries the loop of
  \<open>extract_chart_data_advanced\<close> builds are the same pairs. Their number is the smaller
  of the two lengths, their dates are the first labels and their prices the first data
  values; with 5 labels and 3 data values there are exactly 3, made of the first 3 of each.
\<close>

theorem mismatched_lengths_paired_to_shorter:
  assumes "map_of d ''labels'' = Some (PList ls)" and "map_of d ''data'' = Some (PList ps)"
  shows "validate_price_data (PDict d) = Inr True
         \<and> format_price_data (PDict d) = Inr (PDict d)
         \<and> save_to_csv True (PDict d) = Inr (True, zip ls ps)
         \<and> chart_points (PList ls) (PList ps) = Inr (zip ls ps)
         \<and> (ls \<noteq> [] \<and> ps \<noteq> [] \<longrightarrow> chart_price_data (PDict d) = Inr (Some (zip ls ps)))
         \<and> length (zip ls ps) = min (length ls) (length ps)
         \<and> map fst (zip ls ps) = take (length ps) ls
         \<and> map snd (zip ls ps) = take (length ls) ps"
proof -
  from assms have keys: "''labels'' \<in> fst ` set d" "''data'' \<in> fst ` set d"
    by (metis domI dom_map_of_conv_image_fst)+
  then have ne: "d \<noteq> []" by auto
  have 0: "validate_price_data (PDict d) = Inr True"
    using keys by (simp add: validate_price_data_eq has_key_def)
  have 1: "format_price_data (PDict d) = Inr (PDict d)"
    using keys by (simp add: format_price_data_def py_bind_def py_and_def)
  have 2: "save_to_csv True (PDict d) = Inr (True, zip ls ps)"
    using keys ne assms by (simp add: save_to_csv_def py_bind_def)
  have 3: "ls \<noteq> [] \<and> ps \<noteq> [] \<longrightarrow> chart_price_data (PDict d) = Inr (Some (zip ls ps))"
    using ne assms by (simp add: chart_price_data_def py_bind_def chart_points_lists)
  have 4: "map fst (zip ls ps) = take (length ps) ls"
    by (simp add: map_fst_zip_take min_def)
  have 5: "map snd (zip ls ps) = take (length ls) ps"
    by (simp add: map_snd_zip_take min_def)
  have 6: "length (zip ls ps) = min (length ls) (length ps)"
    by simp
  from 0 1 2 3 4 5 6 chart_points_lists [of ls ps] show ?thesis
    by blast
qed

theorem mismatched_lengths_paired_to_shorter_witness:
  "save_to_csv True (series (PList [PStr ''d1'', PStr ''d2'', PStr ''d3'', PStr ''d4'', PStr ''d5''])
                            (PList [PInt 10, PInt 20, PInt 30]))
     = Inr (True, [(PStr ''d1'', PInt 10), (PStr ''d2'', PInt 20), (PStr ''d3'', PInt 30)])
   \<and> chart_price_data (series (PList [PStr ''d1'', PStr ''d2'', PStr ''d3'', PStr ''d4'', PStr ''d5''])
                            (PList [PInt 10, PInt 20, PInt 30]))
     = Inr (Some [(PStr ''d1'', PInt 10), (PStr ''d2'', PInt 20), (PStr ''d3'', PInt 30)])"
  using mismatched_lengths_paired_to_shorter
    [of "[(''labels'', PList [PStr ''d1'', PStr ''d2'', PStr ''d3'', PStr ''d4'', PStr ''d5'']),
          (''data'', PList [PInt 10, PInt 20, PInt 30])]"
        "[PStr ''d1'', PStr ''d2'', PStr ''d3'', PStr ''d4'', PStr ''d5'']"
        "[PInt 10, PInt 20, PInt 30]"]
  by (simp add: series_def)

text \<open>
  C4 as stated has the normalisation emit exactly 3 points for 5 labels and 3 data
  values. \<open>format_price_data\<close> returns the mapping with its 5 labels and 3 data values.
\<close>

theorem format_price_data_untruncated_counterexample:
  "format_price_data (series (PList [PStr ''d1'', PStr ''d2'', PStr ''d3'', PStr ''d4'', PStr ''d5''])
                             (PList [PInt 10, PInt 20, PInt 30]))
     = Inr (series (PList [PStr ''d1'', PStr ''d2'', PStr ''d3'', PStr ''d4'', PStr ''d5''])
                   (PList [PInt 10, PInt 20, PInt 30]))
   \<and> spec_format_labels_data [PStr ''d1'', PStr ''d2'', PStr ''d3'', PStr ''d4'', PStr ''d5'']
                               [PInt 10, PInt 20, PInt 30]
     = series (PList [PStr ''d1'', PStr ''d2'', PStr ''d3'']) (PList [PInt 10, PInt 20, PInt 30])"
  by (simp add: format_price_data_def series_def py_bind_def py_and_def
        spec_format_labels_data_def points_series_def)

section \<open>The synthetic fallback\<close>

lemma sample_price_loop_grows:
  "length acc \<le> length (sample_price_loop price_draw step_draw start_date end_date i current_date acc)"
proof (induction price_draw step_draw start_date end_date i current_date acc
        rule: sample_price_loop.induct)
  case (1 price_draw step_draw start_date end_date i current_date acc)
  show ?case
  proof (cases "current_date \<le> end_date")
    case True
    with 1 show ?thesis by (subst sample_price_loop.simps) auto
  next
    case False
    then show ?thesis by (subst sample_price_loop.simps) simp
  qed
qed

lemma generate_sample_price_data_nonempty: "generate_sample_price_data price_draw step_draw \<noteq> []"
proof -
  let ?e = "(PStr (strftime 738460), PInt (max 100 (price_draw 0 0)))"
  have "generate_sample_price_data price_draw step_draw
      = sample_price_loop price_draw step_draw 738460 739465 (Suc 0)
          (738460 + randint_1_7 (step_draw 0)) ([] @ [?e])"
    by (simp add: generate_sample_price_data_def start_ordinal end_ordinal)
       (subst sample_price_loop.simps, simp)
  moreover have "length ([] @ [?e]) \<le> length (sample_price_loop price_draw step_draw 738460 739465
          (Suc 0) (738460 + randint_1_7 (step_draw 0)) ([] @ [?e]))"
    by (rule sample_price_loop_grows)
  ultimately show ?thesis by auto
qed

lemma selenium_title_price_data: "price_data (selenium_title h1 pd) = price_data pd"
  by (simp add: selenium_title_def Let_def split: sum.splits list.splits)

lemma method_requests_declines:
  "requests_declines got \<Longrightarrow>
   snd (method_requests got pd) = False \<and> price_data (fst (method_requests got pd)) = price_data pd"
  by (auto simp: requests_declines_def method_requests_def Let_def split: sum.splits)

lemma method_selenium_declines:
  "selenium_declines drv \<Longrightarrow> price_data (method_selenium drv pd) = price_data pd"
  by (auto simp: selenium_declines_def method_selenium_def Let_def selenium_title_price_data
      split: option.splits sum.splits)

lemma extract_chart_data_advanced_nonempty:
  "price_data (extract_chart_data_advanced got drv price_draw step_draw) \<noteq> []"
  by (auto simp: extract_chart_data_advanced_def method_requests_def Let_def
        generate_sample_price_data_nonempty split: sum.splits prod.splits bool.splits)

lemma extract_chart_data_advanced_fallback:
  "requests_declines got \<Longrightarrow> selenium_declines drv \<Longrightarrow>
   price_data (extract_chart_data_advanced got drv price_draw step_draw)
     = generate_sample_price_data price_draw step_draw"
  using method_requests_declines [of got
          "\<lparr>title = ''Unknown Product'', brand = ''Unknown Brand'', price_data = []\<rparr>"]
        method_selenium_declines [of drv]
  by (auto simp: extract_chart_data_advanced_def Let_def split: prod.splits bool.splits)

lemma try_method_sample:
  "try_method file_ok (Inr (generate_sample_data price_at))
     = Inr (if file_ok then Some (generate_sample_data price_at) else None)"
  by (simp add: generate_sample_data_eq try_method_def py_bind_def py_and_def series_def
        validate_price_data_def dict_rules_def save_to_csv_def del: upt_Suc)

lemma try_method_None: "try_method file_ok (Inr PNone) = Inr None"
  by (simp add: try_method_def py_bind_def py_and_def)

lemma try_method_empty_series:
  "try_method True (Inr (series (PList []) (PList [])))
     = Inr (Some (series (PList []) (PList [])))"
  by (simp add: try_method_def py_bind_def py_and_def series_def validate_price_data_def
        dict_rules_def save_to_csv_def)

lemma xy_page_source:
  \<open>extract_from_page_source (Inr [Some ''chartData = {"x": [1], "y": [2]}'']) xy_findall xy_loads
     = Inr (series (PList []) (PList []))\<close>
  by code_simp

text \<open>
  C2 is broken by \<open>scrape_price_history\<close>: it returns the first result that is truthy,
  validates and is saved, and never asks whether the series has a point. When the
  browser extraction finds a chart without a point, \<open>{labels: [], data: []}\<close>, that empty
  series is returned and the generator is not reached, whatever the other methods would
  give. The same happens when the page source holds an \<open>x\<close>/\<open>y\<close> object, which is
  formatted to the empty series. (When both real methods return nothing at all, the 144
  synthetic points are returned if the CSV file can be written, and \<open>None\<close> if not.)
  \<open>extract_chart_data_advanced\<close> does what the claim says: on the same empty chart it
  tests the series (line 276) and returns the generator's, which is never empty.
\<close>

theorem scrape_price_history_empty_series:
  \<open>scrape_price_history True (Inr (series (PList []) (PList []))) fetched findall loads price_at
     = series (PList []) (PList [])
   \<and> scrape_price_history True (Inr PNone)
        (Inr [Some ''chartData = {"x": [1], "y": [2]}'']) xy_findall xy_loads price_at
     = series (PList []) (PList [])
   \<and> scrape_price_history True (Inr PNone) (Inl e) findall loads price_at
     = generate_sample_data price_at
   \<and> scrape_price_history False (Inr PNone) (Inl e) findall loads price_at = PNone
   \<and> price_data (extract_chart_data_advanced (Inl e) (Some empty_chart_driver) price_draw step_draw)
     = generate_sample_price_data price_draw step_draw
   \<and> generate_sample_price_data price_draw step_draw \<noteq> []\<close>
proof -
  have 1: "scrape_price_history True (Inr (series (PList []) (PList []))) fetched findall loads
             price_at = series (PList []) (PList [])"
    by (simp add: scrape_price_history_def try_method_empty_series)
  have 2: \<open>scrape_price_history True (Inr PNone)
        (Inr [Some ''chartData = {"x": [1], "y": [2]}'']) xy_findall xy_loads price_at
     = series (PList []) (PList [])\<close>
    by (simp add: scrape_price_history_def try_method_None xy_page_source try_method_empty_series)
  have page: "extract_from_page_source (Inl e) findall loads = Inr PNone"
    by (simp add: extract_from_page_source_def)
  have 3: "scrape_price_history True (Inr PNone) (Inl e) findall loads price_at
             = generate_sample_data price_at"
    by (simp add: scrape_price_history_def try_method_None page try_method_sample)
  have 4: "scrape_price_history False (Inr PNone) (Inl e) findall loads price_at = PNone"
    by (simp add: scrape_price_history_def try_method_None page try_method_sample)
  have r: "requests_declines (Inl e)"
    by (simp add: requests_declines_def)
  have d: "selenium_declines (Some empty_chart_driver)"
    by (simp add: selenium_declines_def empty_chart_driver_def chart_price_data_def py_bind_def
          series_def)
  from 1 2 3 4 extract_chart_data_advanced_fallback [OF r d]
    generate_sample_price_data_nonempty [of price_draw step_draw]
  show ?thesis by simp
qed

section \<open>Properties of extract\_product\_info\<close>

lemma split_ws_no_space:
  "list_all (\<lambda>c. \<not> is_space c) word \<Longrightarrow>
   list_all (list_all (\<lambda>c. \<not> is_space c)) (split_ws word s)"
  by (induction s arbitrary: word) simp_all

lemma py_split_no_space: "w \<in> set (py_split t) \<Longrightarrow> \<forall>c\<in>set w. \<not> is_space c"
  using split_ws_no_space [of "[]" t] by (simp add: py_split_def list_all_iff)

lemma py_strip_no_space: "\<forall>c\<in>set w. \<not> is_space c \<Longrightarrow> py_strip w = w"
proof -
  assume a: "\<forall>c\<in>set w. \<not> is_space c"
  then have "dropWhile is_space w = w"
    by (cases w) simp_all
  moreover from a have "dropWhile is_space (rev w) = rev w"
    by (cases "rev w") (simp, metis dropWhile.simps(2) list.set_intros(1) set_rev)
  ultimately show ?thesis by (simp add: py_strip_def)
qed

lemma clean_brand_token:
  assumes "\<forall>c\<in>set w. \<not> is_space c"
  shows "clean_brand w = filter kept_in_brand w"
proof -
  have "filter (\<lambda>c. is_word c \<or> is_space c \<or> c = CHR ''-'') w = filter kept_in_brand w"
    using assms by (intro filter_cong) (auto simp: kept_in_brand_def)
  moreover have "\<forall>c\<in>set (filter kept_in_brand w). \<not> is_space c"
    using assms by simp
  ultimately show ?thesis
    by (simp add: clean_brand_def py_strip_no_space)
qed

lemma brand_from_title_Some:
  "t \<noteq> [] \<Longrightarrow> str_or (brand_from_title (Some t)) ''Unknown Brand'' = brand_or_placeholder t"
proof (cases "py_split t")
  case Nil
  assume "t \<noteq> []"
  with Nil show ?thesis by (simp add: brand_from_title_def str_or_def brand_or_placeholder_def)
next
  case (Cons token rest)
  assume "t \<noteq> []"
  from Cons have "token \<in> set (py_split t)" by simp
  then have "clean_brand token = filter kept_in_brand token"
    by (intro clean_brand_token py_split_no_space)
  with Cons \<open>t \<noteq> []\<close> show ?thesis
    by (simp add: brand_from_title_def str_or_def brand_or_placeholder_def)
qed

text \<open>
  C8, as the code has it: the brand is the first whitespace-separated token of the title
  with every character removed that is neither a letter, a digit, an underscore nor a
  hyphen, and the placeholder \<open>Unknown Brand\<close> when nothing is left of it; when no title
  is found (none, or an empty one) the record carries the title \<open>Unknown Product\<close> and the
  brand \<open>Unknown Brand\<close>. The title \<open>Samsung Galaxy S23\<close> yields the brand \<open>Samsung\<close>, and
  the title that starts with \<open>Apple\<close> between two guillemets (U+00AB, U+00BB) yields the
  brand \<open>Apple\<close>.
\<close>

theorem extract_product_info_brand:
  "(page_title pg = Some t \<and> t \<noteq> [] \<longrightarrow>
      extract_product_info pg = \<lparr>title = t, brand = brand_or_placeholder t\<rparr>)
   \<and> (page_title pg = None \<or> page_title pg = Some [] \<longrightarrow>
      extract_product_info pg = \<lparr>title = ''Unknown Product'', brand = ''Unknown Brand''\<rparr>)
   \<and> page_title (h1_page t) = Some t
   \<and> brand (extract_product_info (h1_page ''Samsung Galaxy S23'')) = ''Samsung''
   \<and> brand (extract_product_info (h1_page ([CHR 0xAB] @ ''Apple'' @ [CHR 0xBB] @ '' iPhone'')))
       = ''Apple''"
proof -
  have a: "page_title pg = Some t \<and> t \<noteq> [] \<longrightarrow>
      extract_product_info pg = \<lparr>title = t, brand = brand_or_placeholder t\<rparr>"
    using brand_from_title_Some [of t]
    by (auto simp: extract_product_info_def Let_def str_or_def)
  have b: "page_title pg = None \<or> page_title pg = Some [] \<longrightarrow>
      extract_product_info pg = \<lparr>title = ''Unknown Product'', brand = ''Unknown Brand''\<rparr>"
    by (auto simp: extract_product_info_def Let_def str_or_def brand_from_title_def)
  have c: "page_title (h1_page t) = Some t"
    by (simp add: page_title_def h1_page_def title_selectors_def str_truthy_def Let_def)
  have d: "brand (extract_product_info (h1_page ''Samsung Galaxy S23'')) = ''Samsung''"
    by code_simp
  have e: "brand (extract_product_info (h1_page ([CHR 0xAB] @ ''Apple'' @ [CHR 0xBB] @ '' iPhone'')))
             = ''Apple''"
    by code_simp
  from a b c d e show ?thesis by blast
qed

theorem extract_product_info_brand_witness:
  "extract_product_info (h1_page ''Samsung Galaxy S23'')
     = \<lparr>title = ''Samsung Galaxy S23'', brand = brand_or_placeholder ''Samsung Galaxy S23''\<rparr>
   \<and> extract_product_info \<lparr>select_one = (\<lambda>s. None), og_title = None\<rparr>
     = \<lparr>title = ''Unknown Product'', brand = ''Unknown Brand''\<rparr>"
proof -
  have 1: "page_title (h1_page ''Samsung Galaxy S23'') = Some ''Samsung Galaxy S23''
           \<and> ''Samsung Galaxy S23'' \<noteq> []"
    by (simp add: page_title_def h1_page_def title_selectors_def str_truthy_def Let_def)
  have 2: "page_title \<lparr>select_one = (\<lambda>s. None), og_title = None\<rparr> = None"
    by (simp add: page_title_def title_selectors_def str_truthy_def Let_def)
  from 1 2 extract_product_info_brand [of "h1_page ''Samsung Galaxy S23''" "''Samsung Galaxy S23''"]
    extract_product_info_brand [of "\<lparr>select_one = (\<lambda>s. None), og_title = None\<rparr>" "[]"]
  show ?thesis by blast
qed

text \<open>
  C8 as stated takes the first alphanumeric token and strips its punctuation. The code
  takes the first token whatever it holds and keeps hyphens: the title
  \<open>T-Mobile REVVL 6\<close> gives the brand \<open>T-Mobile\<close>, not \<open>TMobile\<close>, and the title
  \<open>- Samsung Galaxy\<close> gives the brand \<open>-\<close>, not \<open>Samsung\<close>.
\<close>

theorem extract_product_info_brand_counterexample:
  "brand (extract_product_info (h1_page ''T-Mobile REVVL 6'')) = ''T-Mobile''
   \<and> spec_brand ''T-Mobile REVVL 6'' = ''TMobile''
   \<and> brand (extract_product_info (h1_page ''- Samsung Galaxy'')) = ''-''
   \<and> spec_brand ''- Samsung Galaxy'' = ''Samsung''"
  by code_simp

end
